theory Spec2Isabelle
  imports Complex_Main "HOL-Library.Sublist" "HOL-Library.Word" "HOL-Library.Multiset"
begin

section \<open>JavaScript values\<close>

text \<open>
  The server (the Express program at the end of the source bundle) receives JSON
  request bodies and applies JavaScript's truthiness test (\<open>!prompt\<close>, \<open>style || 'realistic'\<close>)
  and string conversion (template literals) to their fields. A string is the list of its
  code units; only code units up to 0xFF are representable. An object is the list of its
  own keys with their values, each key once, as \<open>JSON.parse\<close> leaves it.
\<close>

datatype jsnum = NaN | Infinity bool | Finite rat

datatype jsval =
    JUndefined
  | JNull
  | JBool bool
  | JNum jsnum
  | JStr string
  | JArr "jsval list"
  | JObj "(string \<times> jsval) list"

datatype js_error = TypeError string | RangeError string | Error string

text \<open>ToBoolean: \<open>undefined\<close>, \<open>null\<close>, \<open>false\<close>, \<open>0\<close>, \<open>NaN\<close> and \<open>''\<close> are falsy.\<close>

fun truthy :: "jsval \<Rightarrow> bool" where
  "truthy JUndefined = False"
| "truthy JNull = False"
| "truthy (JBool b) = b"
| "truthy (JNum n) = (n \<noteq> Finite 0 \<and> n \<noteq> NaN)"
| "truthy (JStr s) = (s \<noteq> [])"
| "truthy (JArr vs) = True"
| "truthy (JObj kvs) = True"

text \<open>\<open>a || b\<close>\<close>

definition js_or :: "jsval \<Rightarrow> jsval \<Rightarrow> jsval" where
  "js_or a b = (if truthy a then a else b)"

text \<open>
  ToString, as a template literal applies it: the string, or the \<open>TypeError\<close> it throws.
  The decimal rendering of a number is the runtime's and is taken as the parameter \<open>ns\<close>.
  An object parsed from JSON is rendered by \<open>Object.prototype.toString\<close>, unless it has a
  key \<open>toString\<close> of its own: the value under that key is not a function, \<open>valueOf\<close>
  yields no primitive either, and the conversion throws. An array joins its elements
  with commas, from left to right, rendering \<open>null\<close> and \<open>undefined\<close> elements as the empty
  string; it throws when the conversion of an element does.
\<close>

definition cannot_convert :: js_error where
  "cannot_convert = TypeError ''Cannot convert object to primitive value''"

fun js_to_string :: "(jsnum \<Rightarrow> string) \<Rightarrow> jsval \<Rightarrow> js_error + string"
and js_join :: "(jsnum \<Rightarrow> string) \<Rightarrow> jsval list \<Rightarrow> js_error + string"
and js_elem :: "(jsnum \<Rightarrow> string) \<Rightarrow> jsval \<Rightarrow> js_error + string" where
  "js_to_string ns JUndefined = Inr ''undefined''"
| "js_to_string ns JNull = Inr ''null''"
| "js_to_string ns (JBool b) = Inr (if b then ''true'' else ''false'')"
| "js_to_string ns (JNum n) = Inr (ns n)"
| "js_to_string ns (JStr s) = Inr s"
| "js_to_string ns (JArr vs) = js_join ns vs"
| "js_to_string ns (JObj kvs) =
     (if ''toString'' \<in> set (map fst kvs) then Inl cannot_convert else Inr ''[object Object]'')"
| "js_join ns [] = Inr []"
| "js_join ns [v] = js_elem ns v"
| "js_join ns (v # w # vs) =
     (case js_elem ns v of
        Inl e \<Rightarrow> Inl e
      | Inr s \<Rightarrow> (case js_join ns (w # vs) of
                   Inl e \<Rightarrow> Inl e
                 | Inr r \<Rightarrow> Inr (s @ '','' @ r)))"
| "js_elem ns JUndefined = Inr []"
| "js_elem ns JNull = Inr []"
| "js_elem ns v = js_to_string ns v"

text \<open>
  Reading a property, as the destructuring \<open>const { prompt, style } = req.body\<close> does:
  it throws on \<open>undefined\<close> and \<open>null\<close>, and yields \<open>undefined\<close> for a name the value
  does not have.
\<close>

fun get_prop :: "jsval \<Rightarrow> string \<Rightarrow> js_error + jsval" where
  "get_prop JUndefined k =
     Inl (TypeError (''Cannot destructure property '' @ [CHR 0x27] @ k @ [CHR 0x27] @
                     '' of '' @ [CHR 0x27] @ ''req.body'' @ [CHR 0x27] @ '' as it is undefined.''))"
| "get_prop JNull k =
     Inl (TypeError (''Cannot destructure property '' @ [CHR 0x27] @ k @ [CHR 0x27] @
                     '' of '' @ [CHR 0x27] @ ''req.body'' @ [CHR 0x27] @ '' as it is null.''))"
| "get_prop (JObj kvs) k = (case map_of kvs k of None \<Rightarrow> Inr JUndefined | Some v \<Rightarrow> Inr v)"
| "get_prop v k = Inr JUndefined"

text \<open>\<open>String.prototype.trim\<close>: white space and line terminators, among the code units up to 0xFF.\<close>

definition is_js_space :: "char \<Rightarrow> bool" where
  "is_js_space c \<longleftrightarrow> c \<in> set [CHR 0x09, CHR 0x0A, CHR 0x0B, CHR 0x0C, CHR 0x0D, CHR 0x20, CHR 0xA0]"

definition js_trim :: "string \<Rightarrow> string" where
  "js_trim s = rev (dropWhile is_js_space (rev (dropWhile is_js_space s)))"

section \<open>The upstream services and the server's environment\<close>

type_synonym byte = "8 word"

record hf_request =
  req_url :: string
  req_method :: string
  req_headers :: "(string \<times> string) list"
  req_body :: jsval

text \<open>
  The response of \<open>fetch\<close>: its status, what \<open>.json()\<close> resolves to (or rejects with) and
  what \<open>.arrayBuffer()\<close> resolves to (or rejects with).
\<close>

record hf_response =
  resp_status :: nat
  resp_json :: "js_error + jsval"
  resp_arrayBuffer :: "js_error + byte list"

text \<open>\<open>Response.ok\<close> is true for the statuses 200 to 299.\<close>

definition resp_ok :: "hf_response \<Rightarrow> bool" where
  "resp_ok r \<longleftrightarrow> 200 \<le> resp_status r \<and> resp_status r \<le> 299"

text \<open>
  What a handler runs against: the image credential read from the process environment
  (\<open>undefined\<close> when the variable is not set), the text model
  (\<open>generateContent\<close> followed by \<open>response.text()\<close>: the text, or the error either of them
  throws), the image model reached through \<open>fetch\<close>, and the runtime's number rendering.
\<close>

record server_env =
  HUGGINGFACE_API_KEY :: "string option"
  generateContent :: "string \<Rightarrow> js_error + string"
  fetch :: "hf_request \<Rightarrow> js_error + hf_response"
  number_to_string :: "jsnum \<Rightarrow> string"

definition env_value :: "string option \<Rightarrow> jsval" where
  "env_value v = (case v of None \<Rightarrow> JUndefined | Some s \<Rightarrow> JStr s)"

text \<open>ToString of such a value, which never throws.\<close>

definition env_string :: "string option \<Rightarrow> string" where
  "env_string v = (case v of None \<Rightarrow> ''undefined'' | Some s \<Rightarrow> s)"

text \<open>The upstream calls a handler has issued, in the order it issued them.\<close>

datatype upstream_call = GeminiCall string | ImageCall hf_request

text \<open>
  What a handler answers with: the value it hands to \<open>res.json\<close>, which is sent in its JSON
  serialisation, the text it hands to \<open>res.send\<close>, or a status line without a body.
\<close>

datatype response_body = Json jsval | Text string | NoBody

record http_response =
  status :: nat
  body :: response_body

definition MODEL_URL :: string where
  "MODEL_URL = ''https://router.huggingface.co/hf-inference/models/black-forest-labs/FLUX.1-schnell''"

section \<open>The enhancement requester\<close>

definition enhance_system_prompt :: "string \<Rightarrow> string \<Rightarrow> string" where
  "enhance_system_prompt prompt style =
     ''\<newline>      Improve this text prompt for AI image generation.'' @
     ''\<newline>      Make it detailed, cinematic, high resolution, and ultra-realistic.'' @
     ''\<newline>      Incorporate the style: '' @ style @ ''.'' @
     ''\<newline>      Return ONLY the improved prompt text. Do not include any explanations or extra words.'' @
     ''\<newline>      '' @
     ''\<newline>      User Prompt: '' @ prompt @
     ''\<newline>    ''"

definition enhance_fallback :: "string \<Rightarrow> string \<Rightarrow> string" where
  "enhance_fallback prompt style =
     prompt @ '', '' @ style @ '', high resolution, ultra detailed, cinematic lighting''"

text \<open>
  The two template literals of \<open>getEnhancedPrompt\<close>, each converting its substitutions in
  the order in which they stand: the system prompt built in the \<open>try\<close> block (style, then
  prompt) and the string built in the \<open>catch\<close> block (prompt, then style).
\<close>

definition enhance_try_template :: "server_env \<Rightarrow> jsval \<Rightarrow> jsval \<Rightarrow> js_error + string" where
  "enhance_try_template env prompt style =
     (case js_to_string (number_to_string env) style of
        Inl e \<Rightarrow> Inl e
      | Inr s \<Rightarrow> (case js_to_string (number_to_string env) prompt of
                   Inl e \<Rightarrow> Inl e
                 | Inr p \<Rightarrow> Inr (enhance_system_prompt p s)))"

definition enhance_catch_template :: "server_env \<Rightarrow> jsval \<Rightarrow> jsval \<Rightarrow> js_error + string" where
  "enhance_catch_template env prompt style =
     (case js_to_string (number_to_string env) prompt of
        Inl e \<Rightarrow> Inl e
      | Inr p \<Rightarrow> (case js_to_string (number_to_string env) style of
                   Inl e \<Rightarrow> Inl e
                 | Inr s \<Rightarrow> Inr (enhance_fallback p s)))"

text \<open>
  \<open>getEnhancedPrompt\<close>: the \<open>try\<close> block builds the system prompt, asks the text model and
  trims its answer; the \<open>catch\<close> block replaces any error of the \<open>try\<close> block by the
  fallback string, and the function rejects when building that string throws. The
  second component is the upstream calls issued: none when the system prompt could not
  be built.
\<close>

definition getEnhancedPrompt ::
  "server_env \<Rightarrow> jsval \<Rightarrow> jsval \<Rightarrow> (js_error + string) \<times> upstream_call list" where
  "getEnhancedPrompt env prompt style =
     (case enhance_try_template env prompt style of
        Inl error \<Rightarrow> (enhance_catch_template env prompt style, [])
      | Inr systemPrompt \<Rightarrow>
          (case generateContent env systemPrompt of
             Inr text \<Rightarrow> Inr (js_trim text)
           | Inl error \<Rightarrow> enhance_catch_template env prompt style,
           [GeminiCall systemPrompt]))"

section \<open>The diagram requester\<close>

definition mermaid_system_prompt :: "string \<Rightarrow> string" where
  "mermaid_system_prompt prompt =
     ''\<newline>      Create a Mermaid.js diagram for: '' @ [CHR 0x22] @ prompt @ [CHR 0x22] @ ''.'' @
     ''\<newline>      Format: flowchart (graph TD).'' @
     ''\<newline>      Requirement: Respond ONLY with the Mermaid code. '' @
     ''\<newline>      No backticks, no '' @ [CHR 0x22] @ ''mermaid'' @ [CHR 0x22] @ '' keyword, no preamble.'' @
     ''\<newline>      Example:'' @
     ''\<newline>      graph TD'' @
     ''\<newline>      A[Start] --> B[Next]'' @
     ''\<newline>    ''"

definition mermaid_fallback :: string where
  "mermaid_fallback = ''graph TD\<newline>A[Error] --> B[Diagram Generation Failed]''"

definition fence :: string where
  "fence = ''```''"

text \<open>
  \<open>s.replace(/^pat\n?/, '')\<close> for a literal \<open>pat\<close>: without the \<open>m\<close> flag \<open>^\<close> matches at the
  start of the input only, and the greedy \<open>\n?\<close> takes a line feed when one follows.
\<close>

definition replace_leading :: "string \<Rightarrow> string \<Rightarrow> string" where
  "replace_leading pat s =
     (if prefix pat s
      then (case drop (length pat) s of
              [] \<Rightarrow> []
            | c # r \<Rightarrow> if c = CHR 0x0A then r else c # r)
      else s)"

text \<open>
  \<open>s.replace(/\n?```$/, '')\<close>: \<open>$\<close> matches at the end of the input only, so the match
  is the last three characters, with the line feed before them when there is one.
\<close>

definition replace_trailing_fence :: "string \<Rightarrow> string" where
  "replace_trailing_fence s =
     (if suffix (CHR 0x0A # fence) s then take (length s - 4) s
      else if suffix fence s then take (length s - 3) s
      else s)"

definition strip_code_blocks :: "string \<Rightarrow> string" where
  "strip_code_blocks text =
     replace_trailing_fence (replace_leading fence (replace_leading (fence @ ''mermaid'') text))"

text \<open>
  \<open>getMermaidCode\<close>: the \<open>catch\<close> block returns a constant, so the function never
  rejects; when the system prompt cannot be built, the text model is not called.
\<close>

definition getMermaidCode ::
  "server_env \<Rightarrow> jsval \<Rightarrow> (js_error + string) \<times> upstream_call list" where
  "getMermaidCode env prompt =
     (case js_to_string (number_to_string env) prompt of
        Inl error \<Rightarrow> (Inr mermaid_fallback, [])
      | Inr p \<Rightarrow>
          (let systemPrompt = mermaid_system_prompt p
           in (case generateContent env systemPrompt of
                 Inr text \<Rightarrow> Inr (strip_code_blocks (js_trim text))
               | Inl error \<Rightarrow> Inr mermaid_fallback,
               [GeminiCall systemPrompt])))"

section \<open>The request handlers\<close>

text \<open>
  \<open>res.status(code).json(props)\<close>. The answer carries the JSON body, except at the
  statuses at which none is sent: the informational ones, 204, 205 and 304. Node refuses
  to write a status below 100 or above 999 and throws a \<open>RangeError\<close> instead.
\<close>

definition no_body_status :: "nat \<Rightarrow> bool" where
  "no_body_status code \<longleftrightarrow> code < 200 \<or> code = 204 \<or> code = 205 \<or> code = 304"

definition valid_status :: "nat \<Rightarrow> bool" where
  "valid_status code \<longleftrightarrow> 100 \<le> code \<and> code \<le> 999"

definition json_response :: "nat \<Rightarrow> (string \<times> jsval) list \<Rightarrow> http_response" where
  "json_response code props =
     \<lparr>status = code, body = (if no_body_status code then NoBody else Json (JObj props))\<rparr>"

text \<open>\<open>Buffer.toString('base64')\<close>: the standard alphabet, padded with \<open>=\<close>.\<close>

definition b64_digit :: "nat \<Rightarrow> char" where
  "b64_digit n = ''ABCDEFGHIJKLMNOPQRSTUVWXYZabcdefghijklmnopqrstuvwxyz0123456789+/'' ! (n mod 64)"

fun base64_nat :: "nat list \<Rightarrow> string" where
  "base64_nat [] = []"
| "base64_nat [a] = [b64_digit (a div 4), b64_digit ((a mod 4) * 16), CHR ''='', CHR ''='']"
| "base64_nat [a, b] =
     [b64_digit (a div 4), b64_digit ((a mod 4) * 16 + b div 16),
      b64_digit ((b mod 16) * 4), CHR ''='']"
| "base64_nat (a # b # c # r) =
     [b64_digit (a div 4), b64_digit ((a mod 4) * 16 + b div 16),
      b64_digit ((b mod 16) * 4 + c div 64), b64_digit (c mod 64)] @ base64_nat r"

definition base64 :: "byte list \<Rightarrow> string" where
  "base64 bs = base64_nat (map unat bs)"

definition internal_error :: http_response where
  "internal_error = json_response 500 [(''error'', JStr ''Internal Server Error'')]"

definition image_request :: "string \<Rightarrow> string \<Rightarrow> hf_request" where
  "image_request key enhancedPrompt =
     \<lparr>req_url = MODEL_URL,
      req_method = ''POST'',
      req_headers = [(''Authorization'', ''Bearer '' @ key),
                     (''Content-Type'', ''application/json'')],
      req_body = JObj [(''inputs'', JStr enhancedPrompt)]\<rparr>"

text \<open>
  \<open>POST /generate\<close>. Every \<open>Inl\<close> met inside the handler's \<open>try\<close> block is an exception
  that its \<open>catch\<close> block turns into the 500 response: the destructuring of the body, the
  template literal of the first \<open>console.log\<close> (which converts the prompt to a string), a
  rejection of \<open>getEnhancedPrompt\<close>, of \<open>fetch\<close> or of \<open>arrayBuffer\<close>, and the writing of an
  upstream status that is not valid. What is written to the console is not modelled.
\<close>

definition generate :: "server_env \<Rightarrow> jsval \<Rightarrow> http_response \<times> upstream_call list" where
  "generate env req_body_val =
     (case get_prop req_body_val ''prompt'' of
        Inl error \<Rightarrow> (internal_error, [])
      | Inr prompt \<Rightarrow>
     (case get_prop req_body_val ''style'' of
        Inl error \<Rightarrow> (internal_error, [])
      | Inr style \<Rightarrow>
          if \<not> truthy prompt then (json_response 400 [(''error'', JStr ''Prompt is required'')], [])
          else if \<not> truthy (env_value (HUGGINGFACE_API_KEY env))
          then (json_response 500 [(''error'', JStr ''HF Key missing'')], [])
          else
            (case js_to_string (number_to_string env) prompt of
               Inl error \<Rightarrow> (internal_error, [])
             | Inr logged \<Rightarrow>
            (case getEnhancedPrompt env prompt (js_or style (JStr ''realistic'')) of
               (Inl error, calls) \<Rightarrow> (internal_error, calls)
             | (Inr enhancedPrompt, calls) \<Rightarrow>
                 (let request = image_request (env_string (HUGGINGFACE_API_KEY env)) enhancedPrompt;
                      calls' = calls @ [ImageCall request]
                  in case fetch env request of
                       Inl error \<Rightarrow> (internal_error, calls')
                     | Inr hfResponse \<Rightarrow>
                         if \<not> resp_ok hfResponse
                         then (let errorData = (case resp_json hfResponse of
                                                  Inl e \<Rightarrow> JObj []
                                                | Inr d \<Rightarrow> d)
                               in if \<not> valid_status (resp_status hfResponse)
                                  then (internal_error, calls')
                                  else (json_response (resp_status hfResponse)
                                          [(''error'', JStr ''HF API failed''),
                                           (''details'', errorData)],
                                        calls'))
                         else (case resp_arrayBuffer hfResponse of
                                 Inl error \<Rightarrow> (internal_error, calls')
                               | Inr buffer \<Rightarrow>
                                   (json_response 200
                                      [(''enhancedPrompt'', JStr enhancedPrompt),
                                       (''image'', JStr (''data:image/jpeg;base64,'' @ base64 buffer))],
                                    calls')))))))"

text \<open>
  \<open>POST /generate-diagram\<close>. Its \<open>catch\<close> block answers 500 with the message of the error:
  the destructuring of the body and the template literal of \<open>console.log\<close> can throw.
\<close>

definition error_message :: "js_error \<Rightarrow> string" where
  "error_message e = (case e of TypeError m \<Rightarrow> m | RangeError m \<Rightarrow> m | Error m \<Rightarrow> m)"

definition diagram_error :: "js_error \<Rightarrow> http_response" where
  "diagram_error e =
     json_response 500 [(''error'', JStr ''Failed to generate diagram''),
                        (''details'', JStr (error_message e))]"

definition generate_diagram :: "server_env \<Rightarrow> jsval \<Rightarrow> http_response \<times> upstream_call list" where
  "generate_diagram env req_body_val =
     (case get_prop req_body_val ''prompt'' of
        Inl error \<Rightarrow> (diagram_error error, [])
      | Inr prompt \<Rightarrow>
          if \<not> truthy prompt then (json_response 400 [(''error'', JStr ''Prompt is required'')], [])
          else
            (case js_to_string (number_to_string env) prompt of
               Inl error \<Rightarrow> (diagram_error error, [])
             | Inr logged \<Rightarrow>
            (case getMermaidCode env prompt of
               (Inl error, calls) \<Rightarrow> (diagram_error error, calls)
             | (Inr mermaidCode, calls) \<Rightarrow>
                 (json_response 200 [(''mermaidCode'', JStr mermaidCode)], calls))))"

text \<open>
  \<open>GET /\<close>, the health check, for a request without a matching conditional header (to
  one with it Express answers 304).
\<close>

definition health_check :: "http_response \<times> upstream_call list" where
  "health_check = (\<lparr>status = 200, body = Text ''TextToVisual AI Suite is running!''\<rparr>, [])"

text \<open>
  The text \<open>getEnhancedPrompt\<close> returns for a prompt and a style that convert to the
  strings \<open>p\<close> and \<open>s\<close>, named for the lemmas below.
\<close>

definition enhanced_text :: "server_env \<Rightarrow> string \<Rightarrow> string \<Rightarrow> string" where
  "enhanced_text env p s =
     (case generateContent env (enhance_system_prompt p s) of
        Inr text \<Rightarrow> js_trim text
      | Inl error \<Rightarrow> enhance_fallback p s)"



section \<open>The rate limiter\<close>

text \<open>
  The options the server passes to \<open>rateLimit\<close>, and the response the limiter sends in
  place of the handler's (429 is the library's default status).
\<close>

record limiter_options =
  windowMs :: nat
  max_requests :: nat
  message :: jsval

definition limiter :: limiter_options where
  "limiter = \<lparr>windowMs = 15 * 60 * 1000,
              max_requests = 100,
              message = JObj [(''error'',
                JStr ''Too many requests from this IP, please try again after 15 minutes'')]\<rparr>"

definition too_many_requests :: http_response where
  "too_many_requests = \<lparr>status = 429, body = Json (message limiter)\<rparr>"

text \<open>
  The state of the limiter: the number of the current window and the hits of each caller
  in it. Time is counted in milliseconds since the server started.
\<close>

record limiter_state =
  window :: nat
  hits :: "string \<Rightarrow> nat"

definition limiter_init :: limiter_state where
  "limiter_init = \<lparr>window = 0, hits = (\<lambda>ip. 0)\<rparr>"

text \<open>
  Modelled from the spec: the counting done inside the \<open>express-rate-limit\<close> middleware,
  which is a dependency and not part of the sources. The spec describes a process-wide
  counter keyed by caller address and reset on a fixed time window, with a fixed maximum
  per caller and a JSON error body on excess. A request arriving at \<open>now\<close> in a later
  window than the current one starts the counters afresh; the request is let through
  when the caller's hits, this one included, do not exceed the maximum.
\<close>

definition rate_limit :: "limiter_state \<Rightarrow> nat \<Rightarrow> string \<Rightarrow> bool \<times> limiter_state" where
  "rate_limit st now ip =
     (let w = now div windowMs limiter;
          h = (if w = window st then hits st else (\<lambda>ip. 0));
          n = h ip + 1
      in (n \<le> max_requests limiter, \<lparr>window = w, hits = h(ip := n)\<rparr>))"

text \<open>
  The application: \<open>app.use(limiter)\<close> is mounted before the three routes, so every
  request passes the limiter first. A result is tagged with whether the request reached
  its route.
\<close>

datatype route = GetRoot | PostGenerate | PostGenerateDiagram

record request =
  req_time :: nat
  req_ip :: string
  req_route :: route
  req_json :: jsval

definition dispatch :: "server_env \<Rightarrow> request \<Rightarrow> http_response \<times> upstream_call list" where
  "dispatch env rq =
     (case req_route rq of
        GetRoot \<Rightarrow> health_check
      | PostGenerate \<Rightarrow> generate env (req_json rq)
      | PostGenerateDiagram \<Rightarrow> generate_diagram env (req_json rq))"

definition app :: "server_env \<Rightarrow> limiter_state \<Rightarrow> request \<Rightarrow> (bool \<times> http_response) \<times> limiter_state" where
  "app env st rq =
     (case rate_limit st (req_time rq) (req_ip rq) of
        (True, st') \<Rightarrow> ((True, fst (dispatch env rq)), st')
      | (False, st') \<Rightarrow> ((False, too_many_requests), st'))"

fun serve :: "server_env \<Rightarrow> limiter_state \<Rightarrow> request list \<Rightarrow> (bool \<times> http_response) list" where
  "serve env st [] = []"
| "serve env st (rq # rqs) = (case app env st rq of (r, st') \<Rightarrow> r # serve env st' rqs)"

text \<open>The requests of caller \<open>ip\<close> in window \<open>w\<close> that reached their route.\<close>

definition served_in :: "string \<Rightarrow> nat \<Rightarrow> request list \<Rightarrow> (bool \<times> http_response) list \<Rightarrow> nat" where
  "served_in ip w rqs rs =
     length (filter (\<lambda>(rq, r). req_ip rq = ip \<and> req_time rq div windowMs limiter = w \<and> fst r)
               (zip rqs rs))"

text \<open>All the requests of caller \<open>ip\<close> in window \<open>w\<close>.\<close>

definition requests_in :: "string \<Rightarrow> nat \<Rightarrow> request list \<Rightarrow> nat" where
  "requests_in ip w rqs =
     length (filter (\<lambda>rq. req_ip rq = ip \<and> req_time rq div windowMs limiter = w) rqs)"

section \<open>The archive listing of the client\<close>

text \<open>
  A document of the collection \<open>visuals\<close>, as \<open>handleSaveToCloud\<close> writes it, and the item
  \<open>fetchHistory\<close> makes of it: \<open>{ id: doc.id, ...doc.data() }\<close>. A creation time is the
  store's timestamp, counted in microseconds.
\<close>

record manifestation =
  doc_type :: string
  prompt :: string
  image :: "string option"
  enhancedPrompt :: string
  mermaidCode :: string
  style :: string
  archivist :: string
  createdAt :: nat

record history_item = manifestation +
  item_id :: string

record stored_doc =
  doc_id :: string
  doc_data :: manifestation

text \<open>
  Modelled from the spec: the read query of the remote document store, which is a
  service and not part of the sources. The spec says that the read query on the
  collection orders by creation time, descending.
\<close>

definition getDocs :: "stored_doc list \<Rightarrow> stored_doc list" where
  "getDocs collection = rev (sort_key (\<lambda>d. createdAt (doc_data d)) collection)"

record history_state =
  historyItems :: "history_item list"
  historyLoading :: bool
  error :: "string option"

definition to_item :: "stored_doc \<Rightarrow> history_item" where
  "to_item d = manifestation.extend (doc_data d) (history_item.fields (doc_id d))"

text \<open>
  \<open>fetchHistory\<close>, given what \<open>getDocs\<close> resolves to or rejects with: the items in the
  order of the snapshot, or the error message; the loading flag is cleared either way.
\<close>

definition fetchHistory :: "js_error + stored_doc list \<Rightarrow> history_state \<Rightarrow> history_state" where
  "fetchHistory querySnapshot st =
     (case querySnapshot of
        Inr docs \<Rightarrow> st\<lparr>historyItems := map to_item docs, historyLoading := False\<rparr>
      | Inl err \<Rightarrow> st\<lparr>error := Some ''Failed to load history.'', historyLoading := False\<rparr>)"

section \<open>Example environments\<close>

definition example_env ::
  "string option \<Rightarrow> js_error + string \<Rightarrow> js_error + hf_response \<Rightarrow> server_env" where
  "example_env key text_answer image_answer =
     \<lparr>HUGGINGFACE_API_KEY = key,
      generateContent = (\<lambda>systemPrompt. text_answer),
      fetch = (\<lambda>request. image_answer),
      number_to_string = (\<lambda>n. ''0'')\<rparr>"

definition example_doc :: "string \<Rightarrow> nat \<Rightarrow> stored_doc" where
  "example_doc name time =
     \<lparr>doc_id = name,
      doc_data = \<lparr>doc_type = ''manifestation'', prompt = ''a red fox in snow'', image = None,
                  enhancedPrompt = ''a red fox, ultra detailed'', mermaidCode = ''graph TD'',
                  style = ''anime'', archivist = ''Ada'', createdAt = time\<rparr>\<rparr>"

definition example_request :: request where
  "example_request = \<lparr>req_time = 5000, req_ip = ''10.0.0.7'', req_route = GetRoot,
                       req_json = JUndefined\<rparr>"

section \<open>Auxiliary facts about the handlers\<close>

lemma get_prop_total: "get_prop b k = Inr v \<Longrightarrow> \<exists>w. get_prop b k' = Inr w"
  by (cases b) (auto split: option.splits)

lemma truthy_env_value: "truthy (env_value k) \<longleftrightarrow> (\<exists>key. k = Some key \<and> key \<noteq> [])"
  by (cases k) (auto simp: env_value_def)

lemma env_string_Some: "env_string (Some key) = key"
  by (simp add: env_string_def)

lemma status_json_response: "status (json_response code props) = code"
  by (simp add: json_response_def)

lemma body_json_response:
  "body (json_response code props) = (if no_body_status code then NoBody else Json (JObj props))"
  by (simp add: json_response_def)

lemma status_internal_error: "status internal_error = 500"
  by (simp add: internal_error_def json_response_def)

lemma getEnhancedPrompt_eq:
  assumes "js_to_string (number_to_string env) p = Inr ps"
    and "js_to_string (number_to_string env) sty = Inr ss"
  shows "getEnhancedPrompt env p sty =
           (Inr (enhanced_text env ps ss), [GeminiCall (enhance_system_prompt ps ss)])"
  using assms
  by (simp add: getEnhancedPrompt_def enhance_try_template_def enhance_catch_template_def
      enhanced_text_def split: sum.splits)

lemma generate_valid:
  assumes "get_prop b ''prompt'' = Inr p" "get_prop b ''style'' = Inr sty"
    "truthy p" "HUGGINGFACE_API_KEY env = Some key" "key \<noteq> []"
    "js_to_string (number_to_string env) p = Inr ps"
    "js_to_string (number_to_string env) (js_or sty (JStr ''realistic'')) = Inr ss"
  shows "generate env b =
     (let enhanced = enhanced_text env ps ss;
          calls = [GeminiCall (enhance_system_prompt ps ss),
                   ImageCall (image_request key enhanced)]
      in case fetch env (image_request key enhanced) of
           Inl err \<Rightarrow> (internal_error, calls)
         | Inr hfResponse \<Rightarrow>
             if \<not> resp_ok hfResponse
             then (if \<not> valid_status (resp_status hfResponse) then (internal_error, calls)
                   else (json_response (resp_status hfResponse)
                           [(''error'', JStr ''HF API failed''),
                            (''details'', case resp_json hfResponse of
                                            Inl e \<Rightarrow> JObj [] | Inr d \<Rightarrow> d)],
                         calls))
             else (case resp_arrayBuffer hfResponse of
                     Inl err \<Rightarrow> (internal_error, calls)
                   | Inr buffer \<Rightarrow>
                       (json_response 200
                          [(''enhancedPrompt'', JStr enhanced),
                           (''image'', JStr (''data:image/jpeg;base64,'' @ base64 buffer))],
                        calls)))"
  using assms(1-6)
  by (simp add: generate_def getEnhancedPrompt_eq [OF assms(6,7)] truthy_env_value
      env_string_Some Let_def split: sum.splits)

lemma example_env_simps:
  "HUGGINGFACE_API_KEY (example_env k t i) = k"
  "generateContent (example_env k t i) sp = t"
  "fetch (example_env k t i) rq = i"
  "number_to_string (example_env k t i) n = ''0''"
  by (simp_all add: example_env_def)

lemma number_to_string_example_env: "number_to_string (example_env k t i) = (\<lambda>n. ''0'')"
  by (simp add: example_env_def)

lemmas handler_defs =
  generate_def generate_diagram_def getMermaidCode_def getEnhancedPrompt_def
  enhance_try_template_def enhance_catch_template_def example_env_simps env_value_def
  env_string_def js_or_def Let_def internal_error_def diagram_error_def json_response_def
  no_body_status_def valid_status_def resp_ok_def

section \<open>Auxiliary facts about the stripping of code fences\<close>






section \<open>Auxiliary facts about the rate limiter\<close>

lemma served_in_Nil: "served_in ip w [] rs = 0"
  by (simp add: served_in_def)

lemma served_in_Cons:
  "served_in ip w (rq # rqs) (r # rs) =
     (if req_ip rq = ip \<and> req_time rq div windowMs limiter = w \<and> fst r then 1 else 0)
     + served_in ip w rqs rs"
  by (simp add: served_in_def)

lemma requests_in_Cons:
  "requests_in ip w (rq # rqs) =
     (if req_ip rq = ip \<and> req_time rq div windowMs limiter = w then 1 else 0)
     + requests_in ip w rqs"
  by (simp add: requests_in_def)

lemma requests_in_earlier_window:
  assumes "\<forall>rq \<in> set rqs. w0 \<le> req_time rq div windowMs limiter" "w < w0"
  shows "requests_in ip w rqs = 0"
  using assms by (auto simp: requests_in_def filter_empty_conv)

lemma serve_Cons:
  "serve env st (rq # rqs) =
     (fst (rate_limit st (req_time rq) (req_ip rq)),
      if fst (rate_limit st (req_time rq) (req_ip rq)) then fst (dispatch env rq)
      else too_many_requests)
     # serve env (snd (rate_limit st (req_time rq) (req_ip rq))) rqs"
  by (cases "rate_limit st (req_time rq) (req_ip rq)") (auto simp: app_def)

lemma served_in_serve:
  assumes "sorted (map req_time rqs)"
    and "\<forall>rq \<in> set rqs. window st \<le> req_time rq div windowMs limiter"
  shows "served_in ip w rqs (serve env st rqs) =
           min (requests_in ip w rqs)
               (max_requests limiter - (if w = window st then hits st ip else 0))"
  using assms
proof (induction rqs arbitrary: st)
  case Nil
  then show ?case by (simp add: served_in_Nil requests_in_def)
next
  case (Cons rq rqs)
  let ?wr = "req_time rq div windowMs limiter"
  let ?h = "if ?wr = window st then hits st else (\<lambda>ip. 0)"
  let ?st' = "snd (rate_limit st (req_time rq) (req_ip rq))"
  have st': "window ?st' = ?wr" "hits ?st' = ?h(req_ip rq := ?h (req_ip rq) + 1)"
    by (simp_all add: rate_limit_def Let_def)
  have allowed: "fst (rate_limit st (req_time rq) (req_ip rq)) \<longleftrightarrow> ?h (req_ip rq) + 1 \<le> max_requests limiter"
    by (simp add: rate_limit_def Let_def)
  have sorted': "sorted (map req_time rqs)"
    using Cons.prems(1) by simp
  have later: "\<forall>x \<in> set rqs. ?wr \<le> req_time x div windowMs limiter"
    using Cons.prems(1) by (auto intro: div_le_mono)
  have IH: "served_in ip w rqs (serve env ?st' rqs) =
              min (requests_in ip w rqs)
                  (max_requests limiter - (if w = ?wr then hits ?st' ip else 0))"
    using Cons.IH [OF sorted', of ?st'] later st'(1) by simp
  have wr: "window st \<le> ?wr"
    using Cons.prems(2) by simp
  show ?case
  proof (cases "w = ?wr")
    case True
    show ?thesis
    proof (cases "req_ip rq = ip")
      case ip: True
      have "hits ?st' ip = ?h ip + 1" using st'(2) ip by simp
      moreover have "(if w = window st then hits st ip else 0) = ?h ip"
        using True by simp
      ultimately show ?thesis
        using True ip IH allowed
        by (simp only: serve_Cons served_in_Cons requests_in_Cons fst_conv) (auto simp: min_def)
    next
      case ip: False
      have "hits ?st' ip = ?h ip" using st'(2) ip by simp
      moreover have "(if w = window st then hits st ip else 0) = ?h ip"
        using True by simp
      ultimately show ?thesis
        using True ip IH
        by (simp only: serve_Cons served_in_Cons requests_in_Cons fst_conv) simp
    qed
  next
    case False
    show ?thesis
    proof (cases "w = window st")
      case True
      then have "w < ?wr" using False wr by simp
      then have "requests_in ip w rqs = 0"
        using requests_in_earlier_window [OF later] by simp
      then show ?thesis
        using False IH
        by (simp only: serve_Cons served_in_Cons requests_in_Cons fst_conv) simp
    next
      case w: False
      show ?thesis
        using False w IH
        by (simp only: serve_Cons served_in_Cons requests_in_Cons fst_conv) simp
    qed
  qed
qed

lemma serve_rejections:
  "r \<in> set (serve env st rqs) \<Longrightarrow> \<not> fst r \<Longrightarrow> snd r = too_many_requests"
proof (induction rqs arbitrary: st)
  case Nil
  then show ?case by simp
next
  case (Cons rq rqs)
  then show ?case
    by (auto simp: serve_Cons simp del: serve.simps split: if_splits)
qed

lemma length_serve: "length (serve env st rqs) = length rqs"
  by (induction rqs arbitrary: st) (simp_all add: serve_Cons del: serve.simps(2))

lemma rate_limit_same_window:
  "now div windowMs limiter = window st \<Longrightarrow>
   rate_limit st now ip =
     (hits st ip + 1 \<le> max_requests limiter,
      \<lparr>window = window st, hits = (hits st)(ip := hits st ip + 1)\<rparr>)"
  by (simp add: rate_limit_def Let_def)

lemma serve_replicate_same_window:
  assumes "req_time rq div windowMs limiter = w"
  shows "serve env \<lparr>window = w, hits = h\<rparr> (replicate n rq) =
     map (\<lambda>i. if h (req_ip rq) + i + 1 \<le> max_requests limiter
               then (True, fst (dispatch env rq)) else (False, too_many_requests)) [0..<n]"
  using assms
proof (induction n arbitrary: h)
  case 0
  then show ?case by simp
next
  case (Suc n)
  let ?f = "\<lambda>i. if h (req_ip rq) + i + 1 \<le> max_requests limiter
               then (True, fst (dispatch env rq)) else (False, too_many_requests)"
  let ?h' = "h(req_ip rq := h (req_ip rq) + 1)"
  have step: "serve env \<lparr>window = w, hits = h\<rparr> (replicate (Suc n) rq) =
                ?f 0 # serve env \<lparr>window = w, hits = ?h'\<rparr> (replicate n rq)"
    using Suc.prems
    by (simp add: serve_Cons rate_limit_same_window del: serve.simps fun_upd_apply)
  have "serve env \<lparr>window = w, hits = ?h'\<rparr> (replicate n rq) =
          map (\<lambda>i. if ?h' (req_ip rq) + i + 1 \<le> max_requests limiter
               then (True, fst (dispatch env rq)) else (False, too_many_requests)) [0..<n]"
    using Suc.prems by (rule Suc.IH)
  also have "\<dots> = map (?f \<circ> Suc) [0..<n]"
    by (simp add: o_def)
  finally have rest: "serve env \<lparr>window = w, hits = ?h'\<rparr> (replicate n rq) = map (?f \<circ> Suc) [0..<n]" .
  have "[0..<Suc n] = 0 # map Suc [0..<n]"
    by (simp add: upt_conv_Cons map_Suc_upt del: upt_Suc)
  then have "map ?f [0..<Suc n] = ?f 0 # map (?f \<circ> Suc) [0..<n]"
    by (simp del: upt_Suc)
  with step rest show ?case by (simp only:)
qed

section \<open>Auxiliary facts about the archive listing\<close>

lemma createdAt_to_item: "createdAt (to_item d) = createdAt (doc_data d)"
  by (simp add: to_item_def manifestation.defs)

lemma item_id_to_item: "item_id (to_item d) = doc_id d"
  by (simp add: to_item_def manifestation.defs history_item.defs)

lemma sort_key_strict:
  assumes "distinct (map f xs)"
  shows "sorted_wrt (\<lambda>a b. f a < f b) (sort_key f xs)"
proof -
  have "mset (map f (sort_key f xs)) = mset (map f xs)" by simp
  then have "distinct (map f (sort_key f xs))"
    using assms by (metis mset_eq_imp_distinct_iff)
  moreover have "sorted (map f (sort_key f xs))" by (rule sorted_sort_key)
  ultimately have "sorted_wrt (<) (map f (sort_key f xs))"
    by (simp add: strict_sorted_iff)
  then show ?thesis by (simp add: sorted_wrt_map)
qed

section \<open>The image endpoint and a failing image model\<close>

text \<open>
  Claim C1, as amended. When the request passes validation, its prompt and style convert
  to strings, and the image model answers with a response that is not a success (a status
  from 300 to 999), \<open>POST /generate\<close> answers with the status of that response, whatever it
  is. The status is 500 exactly when the upstream status is 500, and it is never in the
  range 200 to 299. The body is \<open>{ error: 'HF API failed', details }\<close>, where \<open>details\<close> is the
  JSON body of the upstream response, or \<open>{}\<close> when that body cannot be parsed; at the
  upstream status 304 the answer has no body.
\<close>

theorem generate_upstream_failure:
  assumes "get_prop b ''prompt'' = Inr p" "get_prop b ''style'' = Inr sty"
    "truthy p" "HUGGINGFACE_API_KEY env = Some key" "key \<noteq> []"
    "js_to_string (number_to_string env) p = Inr ps"
    "js_to_string (number_to_string env) (js_or sty (JStr ''realistic'')) = Inr ss"
    "fetch env (image_request key (enhanced_text env ps ss)) = Inr r"
    "300 \<le> resp_status r" "resp_status r \<le> 999"
  shows "status (fst (generate env b)) = resp_status r
       \<and> body (fst (generate env b)) =
           (if resp_status r = 304 then NoBody
            else Json (JObj [(''error'', JStr ''HF API failed''),
                             (''details'', case resp_json r of Inl e \<Rightarrow> JObj [] | Inr d \<Rightarrow> d)]))
       \<and> (status (fst (generate env b)) = 500 \<longleftrightarrow> resp_status r = 500)
       \<and> \<not> (200 \<le> status (fst (generate env b)) \<and> status (fst (generate env b)) \<le> 299)"
proof -
  have nok: "\<not> resp_ok r" and valid: "valid_status (resp_status r)"
    using assms(9,10) by (simp_all add: resp_ok_def valid_status_def)
  have nb: "no_body_status (resp_status r) \<longleftrightarrow> resp_status r = 304"
    using assms(9) by (auto simp: no_body_status_def)
  have "fst (generate env b) =
          json_response (resp_status r)
            [(''error'', JStr ''HF API failed''),
             (''details'', case resp_json r of Inl e \<Rightarrow> JObj [] | Inr d \<Rightarrow> d)]"
    using assms(8) nok valid by (simp add: generate_valid [OF assms(1-7)] Let_def)
  then show ?thesis
    using assms(9) nb by (simp add: status_json_response body_json_response)
qed

text \<open>
  The amended claim at an upstream answer 503 whose body is not JSON, and at an upstream
  answer 304.
\<close>

theorem generate_upstream_failure_witness:
  "fst (generate
      (example_env (Some ''hf_key'') (Inr ''a fox'')
         (Inr \<lparr>resp_status = 503, resp_json = Inl (Error ''Unexpected token''),
               resp_arrayBuffer = Inr []\<rparr>))
      (JObj [(''prompt'', JStr ''a red fox in snow''), (''style'', JStr ''anime'')]))
   = \<lparr>status = 503, body = Json (JObj [(''error'', JStr ''HF API failed''), (''details'', JObj [])])\<rparr>
   \<and> fst (generate
      (example_env (Some ''hf_key'') (Inr ''a fox'')
         (Inr \<lparr>resp_status = 304, resp_json = Inl (Error ''Unexpected end of input''),
               resp_arrayBuffer = Inr []\<rparr>))
      (JObj [(''prompt'', JStr ''a red fox in snow''), (''style'', JStr ''anime'')]))
   = \<lparr>status = 304, body = NoBody\<rparr>"
proof -
  let ?b = "JObj [(''prompt'', JStr ''a red fox in snow''), (''style'', JStr ''anime'')]"
  let ?r1 = "\<lparr>resp_status = 503, resp_json = Inl (Error ''Unexpected token''),
               resp_arrayBuffer = Inr []\<rparr>"
  let ?r2 = "\<lparr>resp_status = 304, resp_json = Inl (Error ''Unexpected end of input''),
               resp_arrayBuffer = Inr []\<rparr>"
  have "fst (generate (example_env (Some ''hf_key'') (Inr ''a fox'') (Inr ?r1)) ?b)
          = \<lparr>status = 503, body = Json (JObj [(''error'', JStr ''HF API failed''), (''details'', JObj [])])\<rparr>"
    using generate_upstream_failure
      [of ?b "JStr ''a red fox in snow''" "JStr ''anime''"
          "example_env (Some ''hf_key'') (Inr ''a fox'') (Inr ?r1)" "''hf_key''"
          "''a red fox in snow''" "''anime''" ?r1]
    by (cases "fst (generate (example_env (Some ''hf_key'') (Inr ''a fox'') (Inr ?r1)) ?b)")
       (simp add: example_env_simps js_or_def)
  moreover have "fst (generate (example_env (Some ''hf_key'') (Inr ''a fox'') (Inr ?r2)) ?b)
          = \<lparr>status = 304, body = NoBody\<rparr>"
    using generate_upstream_failure
      [of ?b "JStr ''a red fox in snow''" "JStr ''anime''"
          "example_env (Some ''hf_key'') (Inr ''a fox'') (Inr ?r2)" "''hf_key''"
          "''a red fox in snow''" "''anime''" ?r2]
    by (cases "fst (generate (example_env (Some ''hf_key'') (Inr ''a fox'') (Inr ?r2)) ?b)")
       (simp add: example_env_simps js_or_def)
  ultimately show ?thesis by simp
qed

text \<open>
  Claim C1 as stated fails: an upstream answer 503 is passed on as 503, not as 500.
\<close>

theorem generate_upstream_status_counterexample:
  "status (fst (generate
      (example_env (Some ''hf_key'') (Inr ''a fox'')
         (Inr \<lparr>resp_status = 503, resp_json = Inr (JObj [(''error'', JStr ''Service Unavailable'')]),
               resp_arrayBuffer = Inr []\<rparr>))
      (JObj [(''prompt'', JStr ''a red fox in snow''), (''style'', JStr ''anime'')]))) = 503"
  by (simp add: handler_defs)

section \<open>Validation of the prompt\<close>

text \<open>
  Claim C2, as amended. When the body of the request is an object whose \<open>prompt\<close> is
  missing or falsy (\<open>undefined\<close>, \<open>null\<close>, \<open>false\<close>, \<open>0\<close>, \<open>NaN\<close> or the empty string), both
  \<open>POST /generate\<close> and \<open>POST /generate-diagram\<close> answer 400 with
  \<open>{ error: 'Prompt is required' }\<close> and issue no upstream call.
\<close>

theorem falsy_prompt_rejected:
  assumes "get_prop b ''prompt'' = Inr p" "\<not> truthy p"
  shows "generate env b = (json_response 400 [(''error'', JStr ''Prompt is required'')], [])
       \<and> generate_diagram env b = (json_response 400 [(''error'', JStr ''Prompt is required'')], [])"
proof -
  obtain sty where "get_prop b ''style'' = Inr sty"
    using get_prop_total [OF assms(1)] by blast
  with assms show ?thesis
    by (simp add: generate_def generate_diagram_def)
qed

text \<open>The amended claim at an empty prompt.\<close>

theorem falsy_prompt_rejected_witness:
  "generate (example_env (Some ''hf_key'') (Inr ''a fox'') (Inl (Error ''down'')))
     (JObj [(''prompt'', JStr []), (''style'', JStr ''anime'')])
     = (json_response 400 [(''error'', JStr ''Prompt is required'')], [])
   \<and> generate_diagram (example_env (Some ''hf_key'') (Inr ''a fox'') (Inl (Error ''down'')))
     (JObj [(''prompt'', JStr []), (''style'', JStr ''anime'')])
     = (json_response 400 [(''error'', JStr ''Prompt is required'')], [])"
  using falsy_prompt_rejected
    [of "JObj [(''prompt'', JStr []), (''style'', JStr ''anime'')]" "JStr []"
        "example_env (Some ''hf_key'') (Inr ''a fox'') (Inl (Error ''down''))"]
  by simp

text \<open>
  Claim C2 as stated fails on a prompt of three spaces, which is a non-empty string and
  so passes \<open>!prompt\<close>: the diagram endpoint answers 200 after one call of the text model,
  and the image endpoint calls both models (here the image model is unreachable, hence
  the 500).
\<close>

theorem whitespace_prompt_counterexample:
  "generate_diagram (example_env (Some ''hf_key'') (Inr ''graph TD'') (Inl (Error ''down'')))
     (JObj [(''prompt'', JStr ''   '')])
   = (json_response 200 [(''mermaidCode'', JStr ''graph TD'')],
      [GeminiCall (mermaid_system_prompt ''   '')])
   \<and> status (fst (generate (example_env (Some ''hf_key'') (Inr ''graph TD'') (Inl (Error ''down'')))
         (JObj [(''prompt'', JStr ''   '')]))) = 500
   \<and> length (snd (generate (example_env (Some ''hf_key'') (Inr ''graph TD'') (Inl (Error ''down'')))
         (JObj [(''prompt'', JStr ''   '')]))) = 2"
  by (simp add: handler_defs js_trim_def is_js_space_def strip_code_blocks_def
      replace_leading_def replace_trailing_fence_def fence_def suffix_to_prefix)

section \<open>The diagram requester and code fences\<close>




section \<open>The fallbacks of the two text requesters\<close>

text \<open>
  Claim C4. For a prompt and a style that convert to the strings \<open>ps\<close> and \<open>ss\<close> (a string
  converts to itself), when the call of the text model fails, \<open>getEnhancedPrompt\<close> returns
  normally, with exactly \<open>ps\<close>, \<open>ss\<close> and the fixed descriptors joined by commas, after that
  one call. No error reaches the handler: for a request that passes validation,
  \<open>POST /generate\<close> goes on to call the image model with that text, and when the image
  model answers with a payload the request succeeds, with the fallback text as its
  enhanced prompt.
\<close>

theorem getEnhancedPrompt_fallback:
  assumes "js_to_string (number_to_string env) p = Inr ps"
    and "js_to_string (number_to_string env) sty = Inr ss"
    and "generateContent env (enhance_system_prompt ps ss) = Inl e"
  shows "getEnhancedPrompt env p sty =
           (Inr (ps @ '', '' @ ss @ '', high resolution, ultra detailed, cinematic lighting''),
            [GeminiCall (enhance_system_prompt ps ss)])
       \<and> (get_prop b ''prompt'' = Inr p \<and> get_prop b ''style'' = Inr s0
            \<and> sty = js_or s0 (JStr ''realistic'') \<and> truthy p
            \<and> HUGGINGFACE_API_KEY env = Some key \<and> key \<noteq> [] \<longrightarrow>
          snd (generate env b) =
            [GeminiCall (enhance_system_prompt ps ss),
             ImageCall (image_request key
                (ps @ '', '' @ ss @ '', high resolution, ultra detailed, cinematic lighting''))])
       \<and> (get_prop b ''prompt'' = Inr p \<and> get_prop b ''style'' = Inr s0
            \<and> sty = js_or s0 (JStr ''realistic'') \<and> truthy p
            \<and> HUGGINGFACE_API_KEY env = Some key \<and> key \<noteq> []
            \<and> fetch env (image_request key
                (ps @ '', '' @ ss @ '', high resolution, ultra detailed, cinematic lighting''))
                = Inr r
            \<and> resp_ok r \<and> resp_arrayBuffer r = Inr buffer \<longrightarrow>
          fst (generate env b) =
            json_response 200
              [(''enhancedPrompt'',
                JStr (ps @ '', '' @ ss @ '', high resolution, ultra detailed, cinematic lighting'')),
               (''image'', JStr (''data:image/jpeg;base64,'' @ base64 buffer))])"
proof -
  have et: "enhanced_text env ps ss =
              ps @ '', '' @ ss @ '', high resolution, ultra detailed, cinematic lighting''"
    using assms(3) by (simp add: enhanced_text_def enhance_fallback_def)
  have 1: "getEnhancedPrompt env p sty =
           (Inr (ps @ '', '' @ ss @ '', high resolution, ultra detailed, cinematic lighting''),
            [GeminiCall (enhance_system_prompt ps ss)])"
    using getEnhancedPrompt_eq [OF assms(1,2)] et by simp
  have 2: "snd (generate env b) =
            [GeminiCall (enhance_system_prompt ps ss),
             ImageCall (image_request key
                (ps @ '', '' @ ss @ '', high resolution, ultra detailed, cinematic lighting''))]"
    if "get_prop b ''prompt'' = Inr p" "get_prop b ''style'' = Inr s0"
       "sty = js_or s0 (JStr ''realistic'')" "truthy p"
       "HUGGINGFACE_API_KEY env = Some key" "key \<noteq> []"
    using generate_valid [OF that(1,2,4,5,6) assms(1), of ss] assms(2) that(3) et
    by (auto simp: Let_def split: sum.splits)
  have 3: "fst (generate env b) =
            json_response 200
              [(''enhancedPrompt'',
                JStr (ps @ '', '' @ ss @ '', high resolution, ultra detailed, cinematic lighting'')),
               (''image'', JStr (''data:image/jpeg;base64,'' @ base64 buffer))]"
    if "get_prop b ''prompt'' = Inr p" "get_prop b ''style'' = Inr s0"
       "sty = js_or s0 (JStr ''realistic'')" "truthy p"
       "HUGGINGFACE_API_KEY env = Some key" "key \<noteq> []"
       "fetch env (image_request key
          (ps @ '', '' @ ss @ '', high resolution, ultra detailed, cinematic lighting'')) = Inr r"
       "resp_ok r" "resp_arrayBuffer r = Inr buffer"
    using generate_valid [OF that(1,2,4,5,6) assms(1), of ss] assms(2) that(3,7,8,9) et
    by (simp add: Let_def)
  from 1 2 3 show ?thesis by blast
qed

text \<open>
  The example of the specification, the prompt "a red fox in snow" in the style "anime",
  with a text model that fails and an image model that answers with three bytes.
\<close>

theorem getEnhancedPrompt_fallback_witness:
  "fst (getEnhancedPrompt
          (example_env (Some ''hf_key'') (Inl (Error ''quota''))
             (Inr \<lparr>resp_status = 200, resp_json = Inl (Error ''not JSON''),
                   resp_arrayBuffer = Inr [0xFF, 0xD8, 0xFF]\<rparr>))
          (JStr ''a red fox in snow'') (JStr ''anime''))
   = Inr ''a red fox in snow, anime, high resolution, ultra detailed, cinematic lighting''
   \<and> generate
        (example_env (Some ''hf_key'') (Inl (Error ''quota''))
           (Inr \<lparr>resp_status = 200, resp_json = Inl (Error ''not JSON''),
                 resp_arrayBuffer = Inr [0xFF, 0xD8, 0xFF]\<rparr>))
        (JObj [(''prompt'', JStr ''a red fox in snow''), (''style'', JStr ''anime'')])
     = (\<lparr>status = 200,
         body = Json (JObj
           [(''enhancedPrompt'',
             JStr ''a red fox in snow, anime, high resolution, ultra detailed, cinematic lighting''),
            (''image'', JStr ''data:image/jpeg;base64,/9j/'')])\<rparr>,
        [GeminiCall (enhance_system_prompt ''a red fox in snow'' ''anime''),
         ImageCall (image_request ''hf_key''
           ''a red fox in snow, anime, high resolution, ultra detailed, cinematic lighting'')])"
proof -
  let ?r = "\<lparr>resp_status = 200, resp_json = Inl (Error ''not JSON''),
             resp_arrayBuffer = Inr [0xFF, 0xD8, 0xFF]\<rparr>"
  let ?env = "example_env (Some ''hf_key'') (Inl (Error ''quota'')) (Inr ?r)"
  let ?b = "JObj [(''prompt'', JStr ''a red fox in snow''), (''style'', JStr ''anime'')]"
  have b64: "base64 [0xFF, 0xD8, 0xFF] = ''/9j/''"
    by (simp add: base64_def b64_digit_def)
  note fb = getEnhancedPrompt_fallback
    [of ?env "JStr ''a red fox in snow''" "''a red fox in snow''" "JStr ''anime''" "''anime''"
        "Error ''quota''" ?b "JStr ''anime''" "''hf_key''" ?r "[0xFF, 0xD8, 0xFF]"]
  have "fst (getEnhancedPrompt ?env (JStr ''a red fox in snow'') (JStr ''anime''))
          = Inr ''a red fox in snow, anime, high resolution, ultra detailed, cinematic lighting''"
    using fb by (simp add: example_env_simps)
  moreover have "snd (generate ?env ?b) =
        [GeminiCall (enhance_system_prompt ''a red fox in snow'' ''anime''),
         ImageCall (image_request ''hf_key''
           ''a red fox in snow, anime, high resolution, ultra detailed, cinematic lighting'')]"
    using fb by (simp add: example_env_simps js_or_def)
  moreover have "fst (generate ?env ?b) =
        \<lparr>status = 200,
         body = Json (JObj
           [(''enhancedPrompt'',
             JStr ''a red fox in snow, anime, high resolution, ultra detailed, cinematic lighting''),
            (''image'', JStr ''data:image/jpeg;base64,/9j/'')])\<rparr>"
    using fb
    by (simp add: example_env_simps js_or_def resp_ok_def b64 json_response_def no_body_status_def)
  ultimately show ?thesis
    by (simp add: prod_eq_iff)
qed

text \<open>
  Claim C5. For a prompt that converts to a string, when the call of the text model
  fails, \<open>getMermaidCode\<close> returns normally, with exactly the fixed graph of two nodes, and for
  a request with that prompt \<open>POST /generate-diagram\<close> answers 200 with that text, after
  the one call of the text model.
\<close>

theorem getMermaidCode_fallback:
  assumes "js_to_string (number_to_string env) p = Inr ps"
    and "generateContent env (mermaid_system_prompt ps) = Inl e"
  shows "fst (getMermaidCode env p) = Inr ''graph TD\<newline>A[Error] --> B[Diagram Generation Failed]''
       \<and> (get_prop b ''prompt'' = Inr p \<and> truthy p \<longrightarrow>
            generate_diagram env b =
              (json_response 200
                 [(''mermaidCode'', JStr ''graph TD\<newline>A[Error] --> B[Diagram Generation Failed]'')],
               [GeminiCall (mermaid_system_prompt ps)]))"
  using assms
  by (simp add: getMermaidCode_def generate_diagram_def mermaid_fallback_def Let_def)

text \<open>Claim C5 at the prompt "login flow".\<close>

theorem getMermaidCode_fallback_witness:
  "fst (getMermaidCode (example_env None (Inl (Error ''quota'')) (Inl (Error ''down'')))
          (JStr ''login flow''))
     = Inr ''graph TD\<newline>A[Error] --> B[Diagram Generation Failed]''
   \<and> generate_diagram (example_env None (Inl (Error ''quota'')) (Inl (Error ''down'')))
          (JObj [(''prompt'', JStr ''login flow'')])
     = (\<lparr>status = 200,
         body = Json (JObj [(''mermaidCode'',
                  JStr ''graph TD\<newline>A[Error] --> B[Diagram Generation Failed]'')])\<rparr>,
        [GeminiCall (mermaid_system_prompt ''login flow'')])"
  using getMermaidCode_fallback
    [of "example_env None (Inl (Error ''quota'')) (Inl (Error ''down''))"
        "JStr ''login flow''" "''login flow''" "Error ''quota''"
        "JObj [(''prompt'', JStr ''login flow'')]"]
  by (simp add: example_env_simps json_response_def no_body_status_def)

section \<open>The image endpoint\<close>

text \<open>
  Claim C6. For a request with a prompt, when the image credential is not configured
  (the variable is not set, or is empty), \<open>POST /generate\<close> answers 500 with
  \<open>{ error: 'HF Key missing' }\<close> and has issued no upstream call: neither the text model
  nor the image model is reached.
\<close>

theorem generate_without_credential:
  assumes "get_prop b ''prompt'' = Inr p" "truthy p"
    "HUGGINGFACE_API_KEY env = None \<or> HUGGINGFACE_API_KEY env = Some []"
  shows "generate env b = (json_response 500 [(''error'', JStr ''HF Key missing'')], [])"
proof -
  obtain sty where "get_prop b ''style'' = Inr sty"
    using get_prop_total [OF assms(1)] by blast
  moreover have "\<not> truthy (env_value (HUGGINGFACE_API_KEY env))"
    using assms(3) by (auto simp: env_value_def)
  ultimately show ?thesis
    using assms(1,2) by (simp add: generate_def)
qed

text \<open>Claim C6 with the variable not set.\<close>

theorem generate_without_credential_witness:
  "generate (example_env None (Inr ''a fox'') (Inl (Error ''down'')))
     (JObj [(''prompt'', JStr ''a red fox in snow'')])
   = (\<lparr>status = 500, body = Json (JObj [(''error'', JStr ''HF Key missing'')])\<rparr>, [])"
  using generate_without_credential
    [of "JObj [(''prompt'', JStr ''a red fox in snow'')]" "JStr ''a red fox in snow''"
        "example_env None (Inr ''a fox'') (Inl (Error ''down''))"]
  by (simp add: example_env_simps json_response_def no_body_status_def)

text \<open>
  Claim C7. Whenever \<open>POST /generate\<close> succeeds (answers 200), the handler has first
  obtained the enhanced prompt from \<open>getEnhancedPrompt\<close>, then sent the image model a
  request whose body is \<open>{ inputs: enhancedPrompt }\<close> with exactly that text, and the
  answer holds the enhanced prompt and the binary payload of the image model as a
  base64 data URI. The upstream calls are those of the requester followed by the one
  call of the image model.
\<close>

theorem generate_success:
  assumes "status (fst (generate env b)) = 200"
  shows "\<exists>p sty key enhanced r buffer.
           get_prop b ''prompt'' = Inr p \<and> get_prop b ''style'' = Inr sty
         \<and> HUGGINGFACE_API_KEY env = Some key
         \<and> fst (getEnhancedPrompt env p (js_or sty (JStr ''realistic''))) = Inr enhanced
         \<and> fetch env (image_request key enhanced) = Inr r
         \<and> resp_arrayBuffer r = Inr buffer
         \<and> req_body (image_request key enhanced) = JObj [(''inputs'', JStr enhanced)]
         \<and> generate env b =
             (json_response 200
                [(''enhancedPrompt'', JStr enhanced),
                 (''image'', JStr (''data:image/jpeg;base64,'' @ base64 buffer))],
              snd (getEnhancedPrompt env p (js_or sty (JStr ''realistic'')))
                @ [ImageCall (image_request key enhanced)])"
proof -
  obtain p where p: "get_prop b ''prompt'' = Inr p"
    using assms
    by (cases "get_prop b ''prompt''") (simp_all add: generate_def status_internal_error)
  obtain sty where sty: "get_prop b ''style'' = Inr sty"
    using get_prop_total [OF p] by blast
  have tp: "truthy p"
    using assms p sty by (auto simp: generate_def status_json_response split: if_splits)
  have "truthy (env_value (HUGGINGFACE_API_KEY env))"
    using assms p sty tp by (auto simp: generate_def status_json_response split: if_splits)
  then obtain key where key: "HUGGINGFACE_API_KEY env = Some key" "key \<noteq> []"
    by (auto simp: truthy_env_value)
  have tk: "truthy (env_value (HUGGINGFACE_API_KEY env))"
    using key by (simp add: truthy_env_value)
  obtain ps where ps: "js_to_string (number_to_string env) p = Inr ps"
    using assms p sty tp tk
    by (cases "js_to_string (number_to_string env) p")
       (simp_all add: generate_def status_internal_error)
  let ?ge = "getEnhancedPrompt env p (js_or sty (JStr ''realistic''))"
  obtain res calls where ge0: "?ge = (res, calls)"
    by (cases ?ge) blast
  obtain enhanced where res: "res = Inr enhanced"
    using assms p sty tp tk ps ge0
    by (cases res) (simp_all add: generate_def status_internal_error)
  note ge = ge0 [unfolded res]
  let ?rq = "image_request key enhanced"
  have gen: "generate env b =
      (case fetch env ?rq of
         Inl err \<Rightarrow> (internal_error, calls @ [ImageCall ?rq])
       | Inr hfResponse \<Rightarrow>
           if \<not> resp_ok hfResponse
           then (if \<not> valid_status (resp_status hfResponse)
                 then (internal_error, calls @ [ImageCall ?rq])
                 else (json_response (resp_status hfResponse)
                         [(''error'', JStr ''HF API failed''),
                          (''details'', case resp_json hfResponse of
                                          Inl e \<Rightarrow> JObj [] | Inr d \<Rightarrow> d)],
                       calls @ [ImageCall ?rq]))
           else (case resp_arrayBuffer hfResponse of
                   Inl err \<Rightarrow> (internal_error, calls @ [ImageCall ?rq])
                 | Inr buffer \<Rightarrow>
                     (json_response 200
                        [(''enhancedPrompt'', JStr enhanced),
                         (''image'', JStr (''data:image/jpeg;base64,'' @ base64 buffer))],
                      calls @ [ImageCall ?rq])))"
    using p sty tp tk ps ge key(1)
    by (simp add: generate_def env_string_Some Let_def split: sum.splits)
  obtain r where r: "fetch env ?rq = Inr r"
    using assms gen
    by (cases "fetch env ?rq") (simp_all add: status_internal_error)
  have ok: "resp_ok r"
    using assms gen r
    by (auto simp: status_internal_error status_json_response resp_ok_def split: if_splits)
  obtain buffer where buf: "resp_arrayBuffer r = Inr buffer"
    using assms gen r ok
    by (cases "resp_arrayBuffer r") (simp_all add: status_internal_error)
  show ?thesis
    using p sty key(1) r ok buf gen ge
    by (simp add: image_request_def)
qed

text \<open>
  Claim C7 at a text model that answers with white space around its text and an image
  model that answers with the three bytes FF D8 FF.
\<close>

theorem generate_success_witness:
  "status (fst (generate
      (example_env (Some ''hf_key'') (Inr ''  a red fox, ultra detailed  '')
         (Inr \<lparr>resp_status = 200, resp_json = Inl (Error ''not JSON''),
               resp_arrayBuffer = Inr [0xFF, 0xD8, 0xFF]\<rparr>))
      (JObj [(''prompt'', JStr ''a red fox in snow''), (''style'', JStr ''anime'')]))) = 200
   \<and> generate
      (example_env (Some ''hf_key'') (Inr ''  a red fox, ultra detailed  '')
         (Inr \<lparr>resp_status = 200, resp_json = Inl (Error ''not JSON''),
               resp_arrayBuffer = Inr [0xFF, 0xD8, 0xFF]\<rparr>))
      (JObj [(''prompt'', JStr ''a red fox in snow''), (''style'', JStr ''anime'')])
     = (json_response 200
          [(''enhancedPrompt'', JStr ''a red fox, ultra detailed''),
           (''image'', JStr ''data:image/jpeg;base64,/9j/'')],
        [GeminiCall (enhance_system_prompt ''a red fox in snow'' ''anime''),
         ImageCall (image_request ''hf_key'' ''a red fox, ultra detailed'')])"
proof -
  let ?env = "example_env (Some ''hf_key'') (Inr ''  a red fox, ultra detailed  '')
         (Inr \<lparr>resp_status = 200, resp_json = Inl (Error ''not JSON''),
               resp_arrayBuffer = Inr [0xFF, 0xD8, 0xFF]\<rparr>)"
  let ?b = "JObj [(''prompt'', JStr ''a red fox in snow''), (''style'', JStr ''anime'')]"
  have h: "status (fst (generate ?env ?b)) = 200"
    by (simp add: handler_defs)
  have t: "js_trim ''  a red fox, ultra detailed  '' = ''a red fox, ultra detailed''"
    by (simp add: js_trim_def is_js_space_def)
  have b: "base64 [0xFF, 0xD8, 0xFF] = ''/9j/''"
    by (simp add: base64_def b64_digit_def)
  show ?thesis
    using generate_success [OF h] h
    by (auto simp add: handler_defs t b)
qed

section \<open>The rate limit\<close>

text \<open>
  Claim C8. One limiter, with a window of 15 minutes and a maximum of 100, stands
  before all three routes. For requests in the order of their arrival, in each window
  each caller has at most 100 requests reach a route: exactly the first 100 of them, or
  all when there are fewer. Every request that does not reach its route is answered
  with the JSON body \<open>{ error: 'Too many requests from this IP, ...' }\<close>.
\<close>

theorem rate_limit_fixed_window:
  assumes "sorted (map req_time rqs)"
  shows "served_in ip w rqs (serve env limiter_init rqs) \<le> 100
       \<and> served_in ip w rqs (serve env limiter_init rqs) = min (requests_in ip w rqs) 100
       \<and> (\<forall>r \<in> set (serve env limiter_init rqs). \<not> fst r \<longrightarrow>
            snd r = \<lparr>status = 429, body = Json (JObj [(''error'',
              JStr ''Too many requests from this IP, please try again after 15 minutes'')])\<rparr>)
       \<and> windowMs limiter = 15 * 60 * 1000"
proof -
  have "served_in ip w rqs (serve env limiter_init rqs) = min (requests_in ip w rqs) 100"
    using served_in_serve [OF assms, of limiter_init ip w env]
    by (simp add: limiter_init_def limiter_def)
  moreover have "\<forall>r \<in> set (serve env limiter_init rqs). \<not> fst r \<longrightarrow> snd r = too_many_requests"
    using serve_rejections by blast
  ultimately show ?thesis
    by (simp add: too_many_requests_def limiter_def)
qed

text \<open>
  Claim C8 at 101 requests of one caller in the first window: 100 reach the route, and
  the last one is answered by the limiter.
\<close>

theorem rate_limit_fixed_window_witness:
  "sorted (map req_time (replicate 101 example_request))
   \<and> requests_in ''10.0.0.7'' 0 (replicate 101 example_request) = 101
   \<and> served_in ''10.0.0.7'' 0 (replicate 101 example_request)
        (serve (example_env None (Inl (Error ''down'')) (Inl (Error ''down''))) limiter_init
           (replicate 101 example_request)) = 100
   \<and> last (serve (example_env None (Inl (Error ''down'')) (Inl (Error ''down''))) limiter_init
           (replicate 101 example_request))
     = (False, \<lparr>status = 429, body = Json (JObj [(''error'',
              JStr ''Too many requests from this IP, please try again after 15 minutes'')])\<rparr>)"
proof -
  let ?env = "example_env None (Inl (Error ''down'')) (Inl (Error ''down''))"
  let ?rqs = "replicate 101 example_request"
  have s: "sorted (map req_time ?rqs)"
    by (simp add: sorted_replicate)
  have n: "requests_in ''10.0.0.7'' 0 ?rqs = 101"
    by (simp add: requests_in_def example_request_def limiter_def)
  note bound = rate_limit_fixed_window [OF s, of "''10.0.0.7''" 0 ?env]
  have served: "served_in ''10.0.0.7'' 0 ?rqs (serve ?env limiter_init ?rqs) = 100"
    using bound n by simp
  have w0: "req_time example_request div windowMs limiter = 0"
    by (simp add: example_request_def limiter_def)
  from serve_replicate_same_window [OF w0, of ?env "\<lambda>ip. 0" 101]
  have "serve ?env limiter_init ?rqs =
     map (\<lambda>i. if i + 1 \<le> 100 then (True, fst (dispatch ?env example_request))
               else (False, too_many_requests)) [0..<101]"
    by (simp add: limiter_init_def limiter_def)
  then have l: "last (serve ?env limiter_init ?rqs) = (False, too_many_requests)"
    by (simp add: last_map)
  from s n served l show ?thesis
    by (simp add: too_many_requests_def limiter_def)
qed

section \<open>The archive listing\<close>

text \<open>
  Claim C9. For archived records with distinct creation timestamps (three or more, or
  fewer), the list that \<open>fetchHistory\<close> stores is in strictly descending order of creation
  timestamp, and it holds exactly the archived records.
\<close>

theorem fetchHistory_descending:
  assumes "distinct (map (\<lambda>d. createdAt (doc_data d)) collection)"
  shows "sorted_wrt (\<lambda>a b. createdAt b < createdAt a)
           (historyItems (fetchHistory (Inr (getDocs collection)) st))
       \<and> mset (historyItems (fetchHistory (Inr (getDocs collection)) st))
           = mset (map to_item collection)"
proof -
  have "sorted_wrt (\<lambda>a b. createdAt (doc_data b) < createdAt (doc_data a)) (getDocs collection)"
    using sort_key_strict [OF assms] by (simp add: getDocs_def sorted_wrt_rev)
  then have "sorted_wrt (\<lambda>a b. createdAt b < createdAt a) (map to_item (getDocs collection))"
    by (simp add: sorted_wrt_map createdAt_to_item)
  moreover have "mset (map to_item (getDocs collection)) = mset (map to_item collection)"
    by (simp add: getDocs_def)
  ultimately show ?thesis by (simp add: fetchHistory_def)
qed

text \<open>Claim C9 at three records created at the times 20, 10 and 30.\<close>

theorem fetchHistory_descending_witness:
  "distinct (map (\<lambda>d. createdAt (doc_data d))
      [example_doc ''a'' 20, example_doc ''b'' 10, example_doc ''c'' 30])
   \<and> map item_id (historyItems (fetchHistory
        (Inr (getDocs [example_doc ''a'' 20, example_doc ''b'' 10, example_doc ''c'' 30]))
        \<lparr>historyItems = [], historyLoading = True, error = None\<rparr>)) = [''c'', ''a'', ''b'']
   \<and> sorted_wrt (\<lambda>a b. createdAt b < createdAt a)
        (historyItems (fetchHistory
          (Inr (getDocs [example_doc ''a'' 20, example_doc ''b'' 10, example_doc ''c'' 30]))
          \<lparr>historyItems = [], historyLoading = True, error = None\<rparr>))"
proof -
  have d: "distinct (map (\<lambda>d. createdAt (doc_data d))
      [example_doc ''a'' 20, example_doc ''b'' 10, example_doc ''c'' 30])"
    by (simp add: example_doc_def)
  have "map item_id (historyItems (fetchHistory
        (Inr (getDocs [example_doc ''a'' 20, example_doc ''b'' 10, example_doc ''c'' 30]))
        \<lparr>historyItems = [], historyLoading = True, error = None\<rparr>)) = [''c'', ''a'', ''b'']"
    by (simp add: fetchHistory_def getDocs_def item_id_to_item example_doc_def)
  then show ?thesis
    using d fetchHistory_descending [OF d] by simp
qed

section \<open>The default style\<close>

text \<open>
  Claim C10. When the body of a \<open>POST /generate\<close> request has no style, or an empty
  (or otherwise falsy) one, the handler behaves exactly as for the style \<open>'realistic'\<close>.
  For a request that passes validation and whose prompt converts to a string, its
  upstream calls begin with those of \<open>getEnhancedPrompt\<close> run with the style \<open>'realistic'\<close>,
  so that the first call of the text model already names that style.
\<close>

theorem generate_default_style:
  assumes "get_prop b ''prompt'' = Inr p" "get_prop b ''style'' = Inr sty" "\<not> truthy sty"
  shows "generate env b = generate env (JObj [(''prompt'', p), (''style'', JStr ''realistic'')])
       \<and> (truthy p \<and> truthy (env_value (HUGGINGFACE_API_KEY env))
            \<and> js_to_string (number_to_string env) p = Inr ps \<longrightarrow>
            (\<exists>rest. snd (generate env b) =
               snd (getEnhancedPrompt env p (JStr ''realistic'')) @ rest)
          \<and> (\<exists>rest. snd (generate env b) =
               GeminiCall (enhance_system_prompt ps ''realistic'') # rest))"
proof -
  have same: "generate env b = generate env (JObj [(''prompt'', p), (''style'', JStr ''realistic'')])"
    using assms by (auto simp: generate_def js_or_def split: sum.splits)
  have calls: "snd (generate env b) =
                 [GeminiCall (enhance_system_prompt ps ''realistic''),
                  ImageCall (image_request key (enhanced_text env ps ''realistic''))]"
    if "truthy p" "HUGGINGFACE_API_KEY env = Some key" "key \<noteq> []"
       "js_to_string (number_to_string env) p = Inr ps" for key
    using generate_valid [OF assms(1,2) that, of "''realistic''"] assms(3)
    by (auto simp: js_or_def Let_def split: sum.splits)
  have ge: "snd (getEnhancedPrompt env p (JStr ''realistic'')) =
              [GeminiCall (enhance_system_prompt ps ''realistic'')]"
    if "js_to_string (number_to_string env) p = Inr ps"
    using getEnhancedPrompt_eq [OF that, of "JStr ''realistic''" "''realistic''"] by simp
  show ?thesis
    using same calls ge by (auto simp: truthy_env_value)
qed

text \<open>Claim C10 at a body that has a prompt and no style.\<close>

theorem generate_default_style_witness:
  "generate (example_env (Some ''hf_key'') (Inr ''a fox'') (Inl (Error ''down'')))
      (JObj [(''prompt'', JStr ''a red fox in snow'')])
   = generate (example_env (Some ''hf_key'') (Inr ''a fox'') (Inl (Error ''down'')))
      (JObj [(''prompt'', JStr ''a red fox in snow''), (''style'', JStr ''realistic'')])
   \<and> (\<exists>rest. snd (generate (example_env (Some ''hf_key'') (Inr ''a fox'') (Inl (Error ''down'')))
          (JObj [(''prompt'', JStr ''a red fox in snow'')]))
        = GeminiCall (enhance_system_prompt ''a red fox in snow'' ''realistic'') # rest)"
proof -
  let ?env = "example_env (Some ''hf_key'') (Inr ''a fox'') (Inl (Error ''down''))"
  let ?b = "JObj [(''prompt'', JStr ''a red fox in snow'')]"
  have h1: "get_prop ?b ''prompt'' = Inr (JStr ''a red fox in snow'')" by simp
  have h2: "get_prop ?b ''style'' = Inr JUndefined" by simp
  have h3: "\<not> truthy JUndefined" by simp
  have h4: "truthy (JStr ''a red fox in snow'') \<and> truthy (env_value (HUGGINGFACE_API_KEY ?env))
            \<and> js_to_string (number_to_string ?env) (JStr ''a red fox in snow'')
                = Inr ''a red fox in snow''"
    by (simp add: example_env_simps env_value_def)
  from generate_default_style [OF h1 h2 h3, of ?env "''a red fox in snow''"] h4 show ?thesis
    by blast
qed

end
